theory Spec2Isabelle
  imports Complex_Main "HOL-Library.AList" "HOL-Library.Multiset"
begin

section \<open>JavaScript numbers\<close>

text \<open>
  A JavaScript \<open>number\<close> is a finite value, one of the two infinities, or \<open>NaN\<close>.
  Finite values are modelled by real numbers with exact arithmetic: rounding to
  binary64, overflow of finite operations and the sign of zero are outside the model
  (every zero is the positive zero).  What the model keeps is where a formula leaves
  the finite numbers: a division by zero, and \<open>NaN\<close> passing through
  \<open>Math.max\<close>, \<open>Math.round\<close> and the comparisons.

  Amounts of expenses and budget limits are finite numbers, so they have type
  \<open>real\<close>; a value that the code computes with an unguarded division, or reads
  from text with \<open>Number\<close>, has type \<open>jsnum\<close>.
\<close>

datatype jsnum = Num real | PInf | NInf | NaN

fun js_neg :: "jsnum \<Rightarrow> jsnum" where
  "js_neg (Num a) = Num (- a)"
| "js_neg PInf = NInf"
| "js_neg NInf = PInf"
| "js_neg NaN = NaN"

fun js_plus :: "jsnum \<Rightarrow> jsnum \<Rightarrow> jsnum" where
  "js_plus (Num a) (Num b) = Num (a + b)"
| "js_plus NaN y = NaN"
| "js_plus x NaN = NaN"
| "js_plus PInf NInf = NaN"
| "js_plus NInf PInf = NaN"
| "js_plus PInf y = PInf"
| "js_plus x PInf = PInf"
| "js_plus NInf y = NInf"
| "js_plus x NInf = NInf"

definition js_minus :: "jsnum \<Rightarrow> jsnum \<Rightarrow> jsnum" where
  "js_minus x y = js_plus x (js_neg y)"

text \<open>The sign of a product or quotient with an infinite operand.\<close>

definition signed_inf :: "bool \<Rightarrow> jsnum" where
  "signed_inf positive = (if positive then PInf else NInf)"

fun js_times :: "jsnum \<Rightarrow> jsnum \<Rightarrow> jsnum" where
  "js_times (Num a) (Num b) = Num (a * b)"
| "js_times NaN y = NaN"
| "js_times x NaN = NaN"
| "js_times PInf (Num b) = (if b = 0 then NaN else signed_inf (0 < b))"
| "js_times NInf (Num b) = (if b = 0 then NaN else signed_inf (b < 0))"
| "js_times (Num a) PInf = (if a = 0 then NaN else signed_inf (0 < a))"
| "js_times (Num a) NInf = (if a = 0 then NaN else signed_inf (a < 0))"
| "js_times PInf PInf = PInf"
| "js_times PInf NInf = NInf"
| "js_times NInf PInf = NInf"
| "js_times NInf NInf = PInf"

fun js_div :: "jsnum \<Rightarrow> jsnum \<Rightarrow> jsnum" where
  "js_div (Num a) (Num b) =
     (if b \<noteq> 0 then Num (a / b)
      else if a = 0 then NaN
      else signed_inf (0 < a))"
| "js_div NaN y = NaN"
| "js_div x NaN = NaN"
| "js_div (Num a) PInf = Num 0"
| "js_div (Num a) NInf = Num 0"
| "js_div PInf (Num b) = signed_inf (0 \<le> b)"
| "js_div NInf (Num b) = signed_inf (b < 0)"
| "js_div PInf PInf = NaN"
| "js_div PInf NInf = NaN"
| "js_div NInf PInf = NaN"
| "js_div NInf NInf = NaN"

text \<open>\<open>x >= y\<close> and \<open>x < y\<close>: every comparison with \<open>NaN\<close> is false.\<close>

fun js_ge :: "jsnum \<Rightarrow> jsnum \<Rightarrow> bool" where
  "js_ge (Num a) (Num b) = (b \<le> a)"
| "js_ge NaN y = False"
| "js_ge x NaN = False"
| "js_ge PInf y = True"
| "js_ge x NInf = True"
| "js_ge NInf y = False"
| "js_ge x PInf = False"


text \<open>\<open>Math.max(x, y)\<close>: \<open>NaN\<close> if either argument is \<open>NaN\<close>.\<close>

fun js_max :: "jsnum \<Rightarrow> jsnum \<Rightarrow> jsnum" where
  "js_max NaN y = NaN"
| "js_max x NaN = NaN"
| "js_max x y = (if js_ge x y then x else y)"

text \<open>\<open>Math.sqrt\<close> and \<open>Math.round\<close> (halves go up: \<open>floor (x + 0.5)\<close>).\<close>

fun js_sqrt :: "jsnum \<Rightarrow> jsnum" where
  "js_sqrt (Num a) = (if a < 0 then NaN else Num (sqrt a))"
| "js_sqrt PInf = PInf"
| "js_sqrt NInf = NaN"
| "js_sqrt NaN = NaN"

fun js_round :: "jsnum \<Rightarrow> jsnum" where
  "js_round (Num a) = Num (of_int \<lfloor>a + 1 / 2\<rfloor>)"
| "js_round x = x"

fun isNaN :: "jsnum \<Rightarrow> bool" where
  "isNaN NaN = True"
| "isNaN x = False"

text \<open>A number is a well-defined score when it is finite.\<close>

fun is_finite :: "jsnum \<Rightarrow> bool" where
  "is_finite (Num a) = True"
| "is_finite x = False"

section \<open>Data model\<close>

text \<open>
  \<open>interface Expense { id; date; description; category; amount }\<close>.  The record is
  polymorphic in the type of the amount: the metrics read stored expenses, whose
  amounts are finite (\<open>real expense\<close>); the entry form builds a record from
  \<open>Number(amount)\<close> (\<open>jsnum expense\<close>).
\<close>

record 'n expense =
  eid :: string
  date :: string
  description :: string
  category :: string
  amount :: 'n

text \<open>
  \<open>interface Budget { [category: string]: number }\<close>: an object with one limit per
  category key, kept as an association list in insertion order.  Reading a key
  follows \<open>map_of\<close>; \<open>Object.values\<close> are the second components.  (An object
  lists keys that are array indices first; category names and dates are taken not
  to be such keys.)
\<close>

type_synonym budget = "(string \<times> real) list"

text \<open>
  The calendar.  The components read the clock (\<open>new Date()\<close>) and turn the date
  text of an expense into a year and a month (\<open>new Date(expense.date)\<close>,
  \<open>getFullYear()\<close>, \<open>getMonth()\<close>, months counted from 0).  Both belong to the
  platform and depend on the time zone, so the model takes them as parameters:
  \<open>ym\<close> maps a date text to its year and month, or to \<open>None\<close> for an invalid date
  (whose year and month are \<open>NaN\<close> and equal nothing).
\<close>

type_synonym calendar = "string \<Rightarrow> (int \<times> int) option"

definition in_month :: "calendar \<Rightarrow> int \<Rightarrow> int \<Rightarrow> 'n expense \<Rightarrow> bool" where
  "in_month ym y m e = (case ym (date e) of
       None \<Rightarrow> False
     | Some (ey, em) \<Rightarrow> em = m \<and> ey = y)"

text \<open>\<open>xs.reduce((sum, e) => sum + e.amount, 0)\<close>\<close>

definition total :: "real expense list \<Rightarrow> real" where
  "total es = foldl (\<lambda>sum e. sum + amount e) 0 es"

definition sum_values :: "real list \<Rightarrow> real" where
  "sum_values vs = foldl (\<lambda>sum v. sum + v) 0 vs"


text \<open>
  \<open>acc[k] = (acc[k] || 0) + v\<close> for a key outside \<open>object_prototype_keys\<close>: a
  missing key reads as \<open>undefined\<close>, which \<open>||\<close> replaces by 0 (as it does a
  stored 0).
\<close>

definition accumulate :: "(string \<times> real) list \<Rightarrow> string \<Rightarrow> real \<Rightarrow> (string \<times> real) list" where
  "accumulate acc k v =
     AList.update k ((case map_of acc k of None \<Rightarrow> 0 | Some old \<Rightarrow> old) + v) acc"

definition group_by :: "(real expense \<Rightarrow> string) \<Rightarrow> real expense list \<Rightarrow> (string \<times> real) list" where
  "group_by key es = foldl (\<lambda>acc e. accumulate acc (key e) (amount e)) [] es"

section \<open>Financial health score\<close>

datatype status = Excellent | Good | Warning | Poor

definition status_of :: "jsnum \<Rightarrow> status" where
  "status_of score =
     (if js_ge score (Num 80) then Excellent
      else if js_ge score (Num 60) then Good
      else if js_ge score (Num 40) then Warning
      else Poor)"

definition budgetScore :: "real \<Rightarrow> real \<Rightarrow> real" where
  "budgetScore totalSpent totalBudget =
     (if 0 < totalBudget then max 0 (100 - ((totalSpent / totalBudget) * 100 - 100)) else 50)"

definition avgDailySpending :: "real list \<Rightarrow> real" where
  "avgDailySpending spendingValues =
     (if length spendingValues \<noteq> 0
      then sum_values spendingValues / real (length spendingValues) else 0)"

definition variance :: "real list \<Rightarrow> real" where
  "variance spendingValues =
     (if length spendingValues \<noteq> 0
      then foldl (\<lambda>sum val. sum + (val - avgDailySpending spendingValues) ^ 2) 0 spendingValues
             / real (length spendingValues)
      else 0)"

definition consistencyScore :: "real list \<Rightarrow> jsnum" where
  "consistencyScore spendingValues =
     js_max (Num 0)
       (js_minus (Num 100)
          (js_times
             (js_div (js_sqrt (Num (variance spendingValues)))
                     (Num (avgDailySpending spendingValues)))
             (Num 50)))"

definition diversificationScore :: "nat \<Rightarrow> real" where
  "diversificationScore categoryCount = min 100 (real categoryCount * 16.67)"

definition emergencyScore :: "real \<Rightarrow> real \<Rightarrow> real" where
  "emergencyScore totalSpent totalBudget =
     (let avgMonthlySpending = (if totalSpent \<noteq> 0 then totalSpent else 100)
      in if avgMonthlySpending * 0.5 \<le> totalBudget then 100
         else (totalBudget / (avgMonthlySpending * 0.5)) * 100)"

record healthMetric =
  name :: string
  score :: jsnum
  status :: status

definition metric :: "string \<Rightarrow> jsnum \<Rightarrow> healthMetric" where
  "metric n s = \<lparr> name = n, score = s, status = status_of s \<rparr>"

definition healthMetrics ::
  "calendar \<Rightarrow> int \<Rightarrow> int \<Rightarrow> real expense list \<Rightarrow> budget \<Rightarrow> healthMetric list" where
  "healthMetrics ym currentYear currentMonth expenses budget =
     (let monthlyExpenses = filter (in_month ym currentYear currentMonth) expenses;
          totalSpent = total monthlyExpenses;
          totalBudget = sum_values (map snd budget);
          dailySpending = group_by date monthlyExpenses;
          spendingValues = map snd dailySpending;
          categorySpending = group_by category monthlyExpenses;
          categoryCount = length (map fst categorySpending)
      in [ metric ''Budget Adherence'' (Num (budgetScore totalSpent totalBudget)),
           metric ''Spending Consistency'' (consistencyScore spendingValues),
           metric ''Category Balance'' (Num (diversificationScore categoryCount)),
           metric ''Emergency Readiness'' (Num (emergencyScore totalSpent totalBudget)) ])"

definition weights :: "real list" where
  "weights = [0.4, 0.25, 0.2, 0.15]"

definition overallScore :: "healthMetric list \<Rightarrow> jsnum" where
  "overallScore ms =
     js_round (foldl (\<lambda>sum (m, w). js_plus sum (js_times (score m) (Num w))) (Num 0)
                 (zip ms weights))"

section \<open>Expense prediction\<close>

text \<open>
  \<open>new Date(currentYear, currentMonth - i, 1)\<close>: a month index outside 0..11 is
  carried into the year (\<open>currentYear\<close> is a four-digit year).
\<close>

definition monthDate :: "int \<Rightarrow> int \<Rightarrow> int \<Rightarrow> int \<times> int" where
  "monthDate currentYear currentMonth i =
     (currentYear + (currentMonth - i) div 12, (currentMonth - i) mod 12)"

text \<open>
  The loop \<open>for (let i = 0; i < 3; i++)\<close> pushes one table of category totals per
  month, the current month first.
\<close>

definition categoryTotals ::
  "calendar \<Rightarrow> int \<Rightarrow> int \<Rightarrow> real expense list \<Rightarrow> int \<Rightarrow> (string \<times> real) list" where
  "categoryTotals ym currentYear currentMonth expenses i =
     (let md = monthDate currentYear currentMonth i
      in group_by category (filter (in_month ym (fst md) (snd md)) expenses))"

definition historicalData ::
  "calendar \<Rightarrow> int \<Rightarrow> int \<Rightarrow> real expense list \<Rightarrow> (string \<times> real) list list" where
  "historicalData ym currentYear currentMonth expenses =
     map (categoryTotals ym currentYear currentMonth expenses) [0, 1, 2]"

text \<open>
  \<open>[...new Set(xs)]\<close> keeps the first occurrence of every element, in order
  (\<open>remdups\<close> alone keeps the last).
\<close>

definition uniq :: "'a list \<Rightarrow> 'a list" where
  "uniq xs = rev (remdups (rev xs))"

text \<open>
  \<open>historicalData.map(month => month.data[category] || 0)\<close>, for a category
  outside \<open>object_prototype_keys\<close>.
\<close>

definition monthlySpending :: "(string \<times> real) list list \<Rightarrow> string \<Rightarrow> real list" where
  "monthlySpending hist c =
     map (\<lambda>data. case map_of data c of None \<Rightarrow> 0 | Some v \<Rightarrow> v) hist"

datatype trend = Increasing | Decreasing | Stable

record prediction =
  p_category :: string
  predictedAmount :: real
  confidence :: real
  trend :: trend

text \<open>
  The series is read at index 0 and at index \<open>length - 1\<close> only when it has at
  least two entries.
\<close>

definition trend_of :: "real list \<Rightarrow> trend" where
  "trend_of ms =
     (if 2 \<le> length ms then
        (let recent = ms ! 0; older = ms ! (length ms - 1)
         in if older * 1.1 < recent then Increasing
            else if recent < older * 0.9 then Decreasing
            else Stable)
      else Stable)"

text \<open>
  One element of \<open>categoryPredictions\<close>.  The series always holds the three entries
  of \<open>historicalData\<close>, so the divisor of the average is 3.  The \<open>reasoning\<close> text of
  the source record is display only and is left out.
\<close>

definition predict :: "int \<Rightarrow> string \<Rightarrow> real list \<Rightarrow> prediction" where
  "predict nextMonth c ms =
     (let avgSpending = sum_values ms / real (length ms);
          tr = trend_of ms;
          (predicted0, confidence0) =
             (if tr = Increasing then (avgSpending * 1.15, if 3 \<le> length ms then 85 else 70)
              else if tr = Decreasing then (avgSpending * 0.85, if 3 \<le> length ms then 80 else 65)
              else (avgSpending, 70));
          (predicted1, confidence1) =
             (if c = ''education'' \<and> (nextMonth = 8 \<or> nextMonth = 0)
              then (predicted0 * 1.3, min (confidence0 + 10) 95)
              else (predicted0, confidence0));
          predicted2 =
             (if c = ''entertainment'' \<and> (nextMonth = 11 \<or> nextMonth = 0)
              then predicted1 * 1.2 else predicted1)
      in \<lparr> p_category = c, predictedAmount = max 0 predicted2,
           confidence = confidence1, trend = tr \<rparr>)"

definition categoryPrediction ::
  "calendar \<Rightarrow> int \<Rightarrow> int \<Rightarrow> real expense list \<Rightarrow> string \<Rightarrow> prediction" where
  "categoryPrediction ym currentYear currentMonth expenses c =
     predict ((currentMonth + 1) mod 12) c
       (monthlySpending (historicalData ym currentYear currentMonth expenses) c)"

definition predictions ::
  "calendar \<Rightarrow> int \<Rightarrow> int \<Rightarrow> real expense list \<Rightarrow> prediction list" where
  "predictions ym currentYear currentMonth expenses =
     filter (\<lambda>p. 0 < predictedAmount p)
       (map (categoryPrediction ym currentYear currentMonth expenses)
            (uniq (map category expenses)))"

section \<open>Budget recommendations\<close>

datatype impact = High | Medium | Low

record budgetRecommendation =
  r_category :: string
  currentBudget :: real
  recommendedBudget :: real
  impact :: impact

text \<open>\<open>budget[category] || 0\<close>: a missing key and a stored 0 both read as 0.\<close>

definition budget_or_0 :: "budget \<Rightarrow> string \<Rightarrow> real" where
  "budget_or_0 budget c = (case map_of budget c of None \<Rightarrow> 0 | Some v \<Rightarrow> v)"

definition recommend :: "budget \<Rightarrow> prediction \<Rightarrow> budgetRecommendation" where
  "recommend budget p =
     (let current = budget_or_0 budget (p_category p);
          predicted = predictedAmount p;
          (recommended, imp) =
             (if current = 0 then (predicted * 1.2, High)
              else if current * 1.1 < predicted then (predicted * 1.15, High)
              else if predicted < current * 0.8 then (predicted * 1.1, Medium)
              else (current, Low))
      in \<lparr> r_category = p_category p, currentBudget = current,
           recommendedBudget = recommended, impact = imp \<rparr>)"

fun impactOrder :: "impact \<Rightarrow> real" where
  "impactOrder High = 3"
| "impactOrder Medium = 2"
| "impactOrder Low = 1"

text \<open>
  \<open>Array.prototype.sort\<close> with a comparator is stable: \<open>a\<close> stays before \<open>b\<close>
  unless \<open>compare(a, b) > 0\<close>.  It is modelled by insertion from the right, each
  element placed before the first one it does not have to follow.
\<close>

fun insert_sorted :: "('a \<Rightarrow> 'a \<Rightarrow> real) \<Rightarrow> 'a \<Rightarrow> 'a list \<Rightarrow> 'a list" where
  "insert_sorted compare x [] = [x]"
| "insert_sorted compare x (y # ys) =
     (if compare x y \<le> 0 then x # y # ys else y # insert_sorted compare x ys)"

definition js_sort :: "('a \<Rightarrow> 'a \<Rightarrow> real) \<Rightarrow> 'a list \<Rightarrow> 'a list" where
  "js_sort compare xs = foldr (insert_sorted compare) xs []"

definition by_impact :: "budgetRecommendation \<Rightarrow> budgetRecommendation \<Rightarrow> real" where
  "by_impact a b = impactOrder (impact b) - impactOrder (impact a)"

definition budgetRecommendations :: "budget \<Rightarrow> prediction list \<Rightarrow> budgetRecommendation list" where
  "budgetRecommendations budget preds = js_sort by_impact (map (recommend budget) preds)"

text \<open>
  \<open>newBudget = { ...budget }; newBudget[rec.category] = rec.recommendedBudget\<close>: an
  existing key keeps its place, a new key is appended.  The new map is what
  \<open>onUpdateBudget\<close> receives.
\<close>

definition applyRecommendation :: "budget \<Rightarrow> budgetRecommendation \<Rightarrow> budget" where
  "applyRecommendation budget rec = AList.update (r_category rec) (recommendedBudget rec) budget"

definition applyAllRecommendations :: "budget \<Rightarrow> budgetRecommendation list \<Rightarrow> budget" where
  "applyAllRecommendations budget recs =
     foldl (\<lambda>newBudget rec.
              if impact rec = High
              then AList.update (r_category rec) (recommendedBudget rec) newBudget
              else newBudget)
           budget recs"

section \<open>Gamification\<close>

text \<open>
  An achievement of the fixed catalogue; title, icon and tier are display only and
  are left out.
\<close>

record achievement =
  a_id :: string
  progress :: real
  maxProgress :: real
  unlocked :: bool
  points :: int

definition achievements ::
  "calendar \<Rightarrow> int \<Rightarrow> int \<Rightarrow> real expense list \<Rightarrow> budget \<Rightarrow> real \<Rightarrow> achievement list" where
  "achievements ym currentYear currentMonth expenses budget streakCount =
     (let monthlyExpenses = filter (in_month ym currentYear currentMonth) expenses;
          totalSpent = total monthlyExpenses;
          totalBudget = sum_values (map snd budget);
          categories = uniq (map category expenses);
          expenseCount = real (length expenses);
          saved = (if 0 < totalBudget
                   then min 100 (((totalBudget - totalSpent) / totalBudget) * 100) else 0)
      in [ \<lparr> a_id = ''first-expense'', progress = min expenseCount 1, maxProgress = 1,
             unlocked = (1 \<le> expenseCount), points = 50 \<rparr>,
           \<lparr> a_id = ''expense-tracker'', progress = min expenseCount 10, maxProgress = 10,
             unlocked = (10 \<le> expenseCount), points = 100 \<rparr>,
           \<lparr> a_id = ''budget-master'', progress = saved, maxProgress = 100,
             unlocked = (0 < totalBudget \<and> totalSpent \<le> totalBudget), points = 200 \<rparr>,
           \<lparr> a_id = ''category-explorer'', progress = min (real (length categories)) 5,
             maxProgress = 5, unlocked = (5 \<le> length categories), points = 150 \<rparr>,
           \<lparr> a_id = ''savings-champion'', progress = saved, maxProgress = 20,
             unlocked = (0 < totalBudget \<and> 0.2 \<le> (totalBudget - totalSpent) / totalBudget),
             points = 300 \<rparr>,
           \<lparr> a_id = ''voice-user'', progress = 0, maxProgress = 5,
             unlocked = False, points = 100 \<rparr>,
           \<lparr> a_id = ''consistent-tracker'', progress = streakCount, maxProgress = 7,
             unlocked = (7 \<le> streakCount), points = 250 \<rparr> ])"

text \<open>
  The component state (\<open>useState\<close>).  Nothing in the component calls
  \<open>setStreakCount\<close>.
\<close>

record gamification =
  streakCount :: real
  level :: int
  totalPoints :: int
  unlockedRewards :: "string list"

definition initial_gamification :: gamification where
  "initial_gamification = \<lparr> streakCount = 0, level = 1, totalPoints = 0, unlockedRewards = [] \<rparr>"

definition earnedPoints :: "achievement list \<Rightarrow> int" where
  "earnedPoints achs = foldl (\<lambda>sum a. sum + points a) 0 (filter unlocked achs)"

text \<open>
  The effect that runs when \<open>achievements\<close> has been recomputed, that is after the
  first render and after every change of the expenses, the budget or the streak.
\<close>

definition points_effect :: "achievement list \<Rightarrow> gamification \<Rightarrow> gamification" where
  "points_effect achs st =
     st\<lparr> totalPoints := earnedPoints achs, level := earnedPoints achs div 200 + 1 \<rparr>"

definition recompute ::
  "calendar \<Rightarrow> int \<Rightarrow> int \<Rightarrow> real expense list \<Rightarrow> budget \<Rightarrow> gamification \<Rightarrow> gamification" where
  "recompute ym currentYear currentMonth expenses budget st =
     points_effect (achievements ym currentYear currentMonth expenses budget (streakCount st)) st"

record reward =
  rw_id :: string
  cost :: int
  rw_unlocked :: bool

definition rewards :: "int \<Rightarrow> reward list" where
  "rewards pts =
     [ \<lparr> rw_id = ''budget-boost'', cost = 500, rw_unlocked = (500 \<le> pts) \<rparr>,
       \<lparr> rw_id = ''category-unlock'', cost = 200, rw_unlocked = (200 \<le> pts) \<rparr>,
       \<lparr> rw_id = ''premium-insights'', cost = 1000, rw_unlocked = (1000 \<le> pts) \<rparr>,
       \<lparr> rw_id = ''export-premium'', cost = 300, rw_unlocked = (300 \<le> pts) \<rparr> ]"

text \<open>The \<open>onClick\<close> handler of the button of one reward.\<close>

definition claim :: "reward \<Rightarrow> gamification \<Rightarrow> gamification" where
  "claim r st =
     (if rw_unlocked r \<and> rw_id r \<notin> set (unlockedRewards st)
      then st\<lparr> unlockedRewards := unlockedRewards st @ [rw_id r],
               totalPoints := totalPoints st - cost r \<rparr>
      else st)"

text \<open>Clicking the button of the reward with a given id, as rendered in state \<open>st\<close>.\<close>

definition claim_reward :: "string \<Rightarrow> gamification \<Rightarrow> gamification" where
  "claim_reward rid st =
     (case find (\<lambda>r. rw_id r = rid) (rewards (totalPoints st)) of
        None \<Rightarrow> st
      | Some r \<Rightarrow> claim r st)"

section \<open>Dashboard statistics\<close>

text \<open>
  The local date that \<open>new Date()\<close> gives: the year (of four digits), the month
  counted from 0 and the day of the month.  The browser's time zone is UTC, so
  that \<open>toISOString\<close> prints the date that \<open>getMonth\<close> and \<open>setMonth\<close> work on.
\<close>

type_synonym localDate = "int \<times> int \<times> int"

definition leapYear :: "int \<Rightarrow> bool" where
  "leapYear y = (y mod 4 = 0 \<and> (y mod 100 \<noteq> 0 \<or> y mod 400 = 0))"

definition daysInMonth :: "int \<Rightarrow> int \<Rightarrow> int" where
  "daysInMonth y m =
     (if m = 1 then (if leapYear y then 29 else 28)
      else if m = 3 \<or> m = 5 \<or> m = 8 \<or> m = 10 then 30
      else 31)"

text \<open>
  \<open>Date.prototype.setMonth\<close> keeps the day of the month.  A month index outside
  0..11 is carried into the year, and a day past the end of the new month runs
  over into the month after it (a day of at most 31 by at most three days).
\<close>

definition setMonth :: "localDate \<Rightarrow> int \<Rightarrow> localDate" where
  "setMonth now month =
     (case now of (y, m, d) \<Rightarrow>
        (let y' = y + month div 12;
             m' = month mod 12;
             n = daysInMonth y' m'
         in if d \<le> n then (y', m', d)
            else (y' + (m' + 1) div 12, (m' + 1) mod 12, d - n)))"

definition digit_char :: "nat \<Rightarrow> char" where
  "digit_char d = ''0123456789'' ! d"

text \<open>\<open>toISOString().slice(0, 7)\<close>: the text \<open>YYYY-MM\<close>, the month counted from 1.\<close>

definition isoMonth :: "localDate \<Rightarrow> string" where
  "isoMonth now =
     (case now of (y, m, d) \<Rightarrow>
        [digit_char (nat y div 1000 mod 10), digit_char (nat y div 100 mod 10),
         digit_char (nat y div 10 mod 10), digit_char (nat y mod 10)]
        @ ''-''
        @ [digit_char (nat (m + 1) div 10 mod 10), digit_char (nat (m + 1) mod 10)])"

text \<open>
  \<open>currentMonth = new Date().toISOString().slice(0, 7)\<close> and
  \<open>lastMonth = new Date(new Date().setMonth(new Date().getMonth() - 1))
  .toISOString().slice(0, 7)\<close>
\<close>

definition currentMonth :: "localDate \<Rightarrow> string" where
  "currentMonth now = isoMonth now"

definition lastMonth :: "localDate \<Rightarrow> string" where
  "lastMonth now = (case now of (y, m, d) \<Rightarrow> isoMonth (setMonth now (m - 1)))"

definition startsWith :: "string \<Rightarrow> string \<Rightarrow> bool" where
  "startsWith s p = (take (length p) s = p)"

definition monthTotal :: "string \<Rightarrow> real expense list \<Rightarrow> real" where
  "monthTotal month expenses = total (filter (\<lambda>e. startsWith (date e) month) expenses)"

definition spendingChange :: "localDate \<Rightarrow> real expense list \<Rightarrow> real" where
  "spendingChange now expenses =
     (let currentMonthTotal = monthTotal (currentMonth now) expenses;
          lastMonthTotal = monthTotal (lastMonth now) expenses
      in if 0 < lastMonthTotal
         then ((currentMonthTotal - lastMonthTotal) / lastMonthTotal) * 100
         else 0)"

definition budgetUsagePercentage :: "localDate \<Rightarrow> real expense list \<Rightarrow> budget \<Rightarrow> real" where
  "budgetUsagePercentage now expenses budget =
     (let totalBudget = sum_values (map snd budget)
      in if 0 < totalBudget
         then (monthTotal (currentMonth now) expenses / totalBudget) * 100 else 0)"

definition topCategories :: "localDate \<Rightarrow> real expense list \<Rightarrow> (string \<times> real) list" where
  "topCategories now expenses =
     take 3 (js_sort (\<lambda>a b. snd b - snd a)
               (group_by category
                  (filter (\<lambda>e. startsWith (date e) (currentMonth now)) expenses)))"

section \<open>CSV export\<close>

datatype dateRange = RangeAll | RangeMonth | RangeQuarter

text \<open>
  \<open>new Date(expense.date) >= startDate\<close> compares two times.  \<open>time\<close> gives the time
  of a date text (\<open>None\<close> for an invalid date, which compares false) and
  \<open>startDate\<close> the time the component derives from the clock for a range; both
  are parameters.
\<close>

definition getFilteredExpenses ::
  "(string \<Rightarrow> real option) \<Rightarrow> (dateRange \<Rightarrow> real) \<Rightarrow> dateRange \<Rightarrow> real expense list
     \<Rightarrow> real expense list" where
  "getFilteredExpenses time startDate dateRange expenses =
     (if dateRange = RangeAll then expenses
      else filter (\<lambda>e. case time (date e) of None \<Rightarrow> False
                                            | Some t \<Rightarrow> startDate dateRange \<le> t) expenses)"

text \<open>\<open>Array.prototype.join\<close>\<close>

fun join :: "string \<Rightarrow> string list \<Rightarrow> string" where
  "join sep [] = []"
| "join sep [x] = x"
| "join sep (x # y # ys) = x @ sep @ join sep (y # ys)"

text \<open>
  The text of the file.  \<open>toFixed2\<close> stands for \<open>amount.toFixed(2)\<close>, a formatting
  routine of the platform.
\<close>

definition headers :: "string list" where
  "headers = [''Date'', ''Description'', ''Category'', ''Amount'']"

definition csvRow :: "(real \<Rightarrow> string) \<Rightarrow> real expense \<Rightarrow> string" where
  "csvRow toFixed2 e =
     join '','' [date e, [CHR 0x22] @ description e @ [CHR 0x22], category e,
                 toFixed2 (amount e)]"

definition csvContent :: "(real \<Rightarrow> string) \<Rightarrow> real expense list \<Rightarrow> string" where
  "csvContent toFixed2 filteredExpenses =
     join [CHR 0x0A] (join '','' headers # map (csvRow toFixed2) filteredExpenses)"

definition exportAsCSV ::
  "(real \<Rightarrow> string) \<Rightarrow> (string \<Rightarrow> real option) \<Rightarrow> (dateRange \<Rightarrow> real) \<Rightarrow> dateRange
     \<Rightarrow> real expense list \<Rightarrow> string" where
  "exportAsCSV toFixed2 time startDate dateRange expenses =
     csvContent toFixed2 (getFilteredExpenses time startDate dateRange expenses)"

section \<open>Text to number\<close>

text \<open>
  Texts are lists of bytes; the model covers ASCII text.  \<open>trim\<close> removes white
  space and line terminators at both ends.
\<close>

definition is_space :: "char \<Rightarrow> bool" where
  "is_space c = (let n = (of_char c :: nat) in (9 \<le> n \<and> n \<le> 13) \<or> n = 32)"

definition trim :: "string \<Rightarrow> string" where
  "trim s = rev (dropWhile is_space (rev (dropWhile is_space s)))"

definition digit :: "char \<Rightarrow> nat option" where
  "digit c = (let n = (of_char c :: nat) in if 48 \<le> n \<and> n \<le> 57 then Some (n - 48) else None)"

definition hex_digit :: "char \<Rightarrow> nat option" where
  "hex_digit c =
     (let n = (of_char c :: nat)
      in if 48 \<le> n \<and> n \<le> 57 then Some (n - 48)
         else if 97 \<le> n \<and> n \<le> 102 then Some (n - 87)
         else if 65 \<le> n \<and> n \<le> 70 then Some (n - 55)
         else None)"

definition is_digit :: "char \<Rightarrow> bool" where
  "is_digit c = (digit c \<noteq> None)"

text \<open>The value of a digit sequence in a base, \<open>None\<close> if a character is no digit of it.\<close>

fun radix_val :: "nat \<Rightarrow> nat \<Rightarrow> string \<Rightarrow> nat option" where
  "radix_val base acc [] = Some acc"
| "radix_val base acc (c # cs) =
     (case hex_digit c of
        None \<Rightarrow> None
      | Some d \<Rightarrow> if d < base then radix_val base (base * acc + d) cs else None)"

definition digits :: "string \<Rightarrow> nat option" where
  "digits ds = (if ds = [] then None else radix_val 10 0 ds)"

text \<open>\<open>0x\<close>, \<open>0o\<close> and \<open>0b\<close> literals, which take no sign.\<close>

definition nondecimal :: "string \<Rightarrow> nat option" where
  "nondecimal t =
     (case t of
        c0 # c1 # ds \<Rightarrow>
          if c0 = CHR ''0'' \<and> ds \<noteq> [] then
            (if c1 = CHR ''x'' \<or> c1 = CHR ''X'' then radix_val 16 0 ds
             else if c1 = CHR ''o'' \<or> c1 = CHR ''O'' then radix_val 8 0 ds
             else if c1 = CHR ''b'' \<or> c1 = CHR ''B'' then radix_val 2 0 ds
             else None)
          else None
      | _ \<Rightarrow> None)"

definition exponent_part :: "string \<Rightarrow> int option" where
  "exponent_part r =
     (case r of
        [] \<Rightarrow> Some 0
      | c # ds \<Rightarrow>
          if c = CHR ''e'' \<or> c = CHR ''E'' then
            (case ds of
               [] \<Rightarrow> None
             | s # ds' \<Rightarrow>
                 if s = CHR ''+'' then map_option int (digits ds')
                 else if s = CHR ''-'' then map_option (\<lambda>n. - int n) (digits ds')
                 else map_option int (digits ds))
          else None)"

text \<open>
  Digits, an optional point with digits, an optional exponent; at least one digit
  before or after the point.
\<close>

definition unsigned_decimal :: "string \<Rightarrow> real option" where
  "unsigned_decimal u =
     (let ip = takeWhile is_digit u;
          r1 = dropWhile is_digit u;
          fp = (case r1 of [] \<Rightarrow> []
                | c # r \<Rightarrow> if c = CHR ''.'' then takeWhile is_digit r else []);
          r2 = (case r1 of [] \<Rightarrow> []
                | c # r \<Rightarrow> if c = CHR ''.'' then dropWhile is_digit r else r1)
      in if ip = [] \<and> fp = [] then None
         else (case (radix_val 10 0 ip, radix_val 10 0 fp, exponent_part r2) of
                 (Some i, Some f, Some e) \<Rightarrow>
                   Some ((real i + real f / 10 ^ length fp)
                         * (if 0 \<le> e then 10 ^ nat e else 1 / 10 ^ nat (- e)))
               | _ \<Rightarrow> None))"

text \<open>
  \<open>Number(text)\<close>: the empty and the blank text are 0, a text that is no numeric
  literal is \<open>NaN\<close>.
\<close>

definition Number :: "string \<Rightarrow> jsnum" where
  "Number s =
     (let t = trim s
      in if t = [] then Num 0
         else (case nondecimal t of
                 Some n \<Rightarrow> Num (real n)
               | None \<Rightarrow>
                   (let negative = (hd t = CHR ''-'');
                        u = (if hd t = CHR ''-'' \<or> hd t = CHR ''+'' then tl t else t)
                    in if u = ''Infinity'' then (if negative then NInf else PInf)
                       else (case unsigned_decimal u of
                               None \<Rightarrow> NaN
                             | Some v \<Rightarrow> Num (if negative then - v else v)))))"

section \<open>Expense form\<close>



















section \<open>A calendar for dated examples\<close>

text \<open>
  The calendar of a browser whose time zone is UTC, on the dates the entry form
  writes (\<open>YYYY-MM-DD\<close>): the year, and the month counted from 0.
\<close>

definition utc_calendar :: calendar where
  "utc_calendar s =
     (if length s = 10 \<and> s ! 4 = CHR ''-'' \<and> s ! 7 = CHR ''-'' then
        (case (radix_val 10 0 (take 4 s), radix_val 10 0 (take 2 (drop 5 s)),
               radix_val 10 0 (drop 8 s)) of
           (Some y, Some m, Some d) \<Rightarrow>
             if 1 \<le> m \<and> m \<le> 12 \<and> 1 \<le> d \<and> d \<le> 31 then Some (int y, int m - 1) else None
         | _ \<Rightarrow> None)
      else None)"

section \<open>The spending series as the specification words it\<close>

text \<open>
  The total spend of a category in the month \<open>i\<close> months before the current one,
  0 when the month has no expense of the category.  The code instead groups each
  month by category first and reads the table (\<open>monthlySpending\<close>); the two are
  compared below.
\<close>

definition spec_series ::
  "calendar \<Rightarrow> int \<Rightarrow> int \<Rightarrow> real expense list \<Rightarrow> string \<Rightarrow> int \<Rightarrow> real" where
  "spec_series ym y m expenses c i =
     sum_list (map amount
       (filter (\<lambda>e. category e = c
                     \<and> in_month ym (fst (monthDate y m i)) (snd (monthDate y m i)) e)
               expenses))"

section \<open>Example data\<close>

definition lunch :: "real expense" where
  "lunch = \<lparr> eid = ''1'', date = ''2026-11-02'', description = ''lunch'',
             category = ''food'', amount = 10 \<rparr>"


definition p50 :: prediction where
  "p50 = \<lparr> p_category = ''food'', predictedAmount = 50, confidence = 70, trend = Stable \<rparr>"

definition example_budget :: budget where
  "example_budget = [(''bills'', 100), (''transport'', 100)]"

definition example_predictions :: "prediction list" where
  "example_predictions =
     [ \<lparr> p_category = ''bills'', predictedAmount = 100, confidence = 70, trend = Stable \<rparr>,
       p50,
       \<lparr> p_category = ''transport'', predictedAmount = 40, confidence = 80,
         trend = Decreasing \<rparr> ]"

definition february_rent :: "real expense" where
  "february_rent = \<lparr> eid = ''5'', date = ''2026-02-10'', description = ''rent'',
                     category = ''bills'', amount = 100 \<rparr>"

definition march_books :: "real expense" where
  "march_books = \<lparr> eid = ''6'', date = ''2026-03-05'', description = ''books'',
                   category = ''education'', amount = 150 \<rparr>"




text \<open>
  \<open>toFixed(2)\<close> on a number of magnitude below \<open>10^21\<close>: the nearest multiple of
  0.01, the larger one of two, with the sign of the number.  It serves as the
  formatter of the examples.
\<close>

fun show_nat :: "nat \<Rightarrow> string" where
  "show_nat n =
     (if n < 10 then [digit_char n] else show_nat (n div 10) @ [digit_char (n mod 10)])"

definition toFixed2_small :: "real \<Rightarrow> string" where
  "toFixed2_small x =
     (let n = nat \<lfloor>\<bar>x\<bar> * 100 + 1 / 2\<rfloor>
      in (if x < 0 then ''-'' else []) @ show_nat (n div 100) @ ''.''
         @ [digit_char (n mod 100 div 10), digit_char (n mod 10)])"

section \<open>Properties of the health score\<close>

lemmas health_defs =
  healthMetrics_def in_month_def total_def sum_values_def group_by_def accumulate_def
  metric_def budgetScore_def consistencyScore_def diversificationScore_def
  emergencyScore_def variance_def avgDailySpending_def js_minus_def Let_def

lemmas calendar_defs = utc_calendar_def hex_digit_def

declare show_nat.simps [simp del]

text \<open>
  Three of the four sub-scores stay within their range: the diversification score is
  capped by \<open>Math.min\<close>, the emergency score by its guard, and all are bounded
  below.  The budget adherence score has a lower bound only.
\<close>

lemma diversificationScore_range:
  "0 \<le> diversificationScore n \<and> diversificationScore n \<le> 100"
  by (simp add: diversificationScore_def)

lemma budgetScore_lower: "0 \<le> budgetScore totalSpent totalBudget"
  by (simp add: budgetScore_def)

lemma emergencyScore_range:
  assumes "0 \<le> totalSpent" "0 \<le> totalBudget"
  shows "0 \<le> emergencyScore totalSpent totalBudget
         \<and> emergencyScore totalSpent totalBudget \<le> 100"
  using assms by (auto simp: emergencyScore_def Let_def divide_simps)

lemma overallScore_weighted:
  "overallScore [a, b, c, d] =
     js_round (js_plus (js_plus (js_plus (js_plus (Num 0) (js_times (score a) (Num 0.4)))
                                         (js_times (score b) (Num 0.25)))
                                (js_times (score c) (Num 0.2)))
                       (js_times (score d) (Num 0.15)))"
  by (simp add: overallScore_def weights_def)

text \<open>
  C1.  The claim: every sub-score lies in [0,100] and so does the composite, the
  rounded weighted sum.  The code bounds the budget adherence score from below
  only.  With one expense of 10 in the current month and a budget of 100 for its
  category, the four scores are 190, 100, 16.67 and 100, and the composite is
  round (76 + 25 + 3.334 + 15) = 119.
\<close>

theorem C1_budget_adherence_exceeds_100:
  "map score (healthMetrics utc_calendar 2026 10 [lunch] [(''food'', 100)])
     = [Num 190, Num 100, Num (1667 / 100), Num 100]
   \<and> overallScore (healthMetrics utc_calendar 2026 10 [lunch] [(''food'', 100)]) = Num 119"
  by (simp add: health_defs calendar_defs lunch_def overallScore_def weights_def)

text \<open>
  C2.  The claim: with no day of spending in the current month the consistency
  score is 100, and it is never \<open>NaN\<close>.  The code guards the mean and the variance
  against an empty month, both are then 0, and divides one by the other:
  \<open>Math.sqrt(0) / 0\<close> is \<open>NaN\<close>, which \<open>Math.max\<close> and \<open>Math.round\<close> pass on.  For
  an empty expense list, whatever the clock and the budget, the consistency score
  and the composite are \<open>NaN\<close>.
\<close>

theorem C2_consistency_score_NaN:
  "consistencyScore [] = NaN
   \<and> score (healthMetrics ym y m [] budget ! 1) = NaN
   \<and> \<not> is_finite (score (healthMetrics ym y m [] budget ! 1))
   \<and> overallScore (healthMetrics ym y m [] budget) = NaN"
  by (simp add: health_defs overallScore_def weights_def)

section \<open>Properties of the prediction\<close>

subsection \<open>Grouping by a key\<close>

lemma map_of_accumulate:
  "map_of (accumulate acc k v) k' =
     (if k' = k then Some ((case map_of acc k of None \<Rightarrow> 0 | Some old \<Rightarrow> old) + v)
      else map_of acc k')"
  by (simp add: accumulate_def update_conv')

lemma filter_key_absent:
  "k \<notin> key ` set es \<Longrightarrow> filter (\<lambda>e. key e = k) es = []"
  by (auto simp: filter_empty_conv)

lemma map_of_foldl_accumulate:
  "map_of (foldl (\<lambda>acc e. accumulate acc (key e) (amount e)) acc es) k =
     (if k \<in> key ` set es
      then Some ((case map_of acc k of None \<Rightarrow> 0 | Some old \<Rightarrow> old)
                 + sum_list (map amount (filter (\<lambda>e. key e = k) es)))
      else map_of acc k)"
proof (induction es arbitrary: acc)
  case Nil
  then show ?case by simp
next
  case (Cons e es)
  show ?case
  proof (cases "k \<in> key ` set es")
    case True
    then show ?thesis
      by (cases "map_of acc k") (auto simp: Cons.IH map_of_accumulate)
  next
    case False
    then show ?thesis
      by (cases "map_of acc k") (auto simp: Cons.IH map_of_accumulate filter_key_absent)
  qed
qed

text \<open>A key of the table holds the sum of the amounts filed under it.\<close>

lemma map_of_group_by:
  "map_of (group_by key es) k =
     (if k \<in> key ` set es then Some (sum_list (map amount (filter (\<lambda>e. key e = k) es)))
      else None)"
  by (simp add: group_by_def map_of_foldl_accumulate)

lemma group_by_or_0:
  "(case map_of (group_by key es) k of None \<Rightarrow> 0 | Some v \<Rightarrow> v)
     = sum_list (map amount (filter (\<lambda>e. key e = k) es))"
proof (cases "k \<in> key ` set es")
  case True
  then show ?thesis by (simp add: map_of_group_by)
next
  case False
  then show ?thesis by (simp add: map_of_group_by filter_key_absent)
qed

subsection \<open>The series and the prediction of one category\<close>

text \<open>The series of the code has three entries, the monthly totals, latest first.\<close>

lemma monthlySpending_series:
  "monthlySpending (historicalData ym y m es) c =
     [spec_series ym y m es c 0, spec_series ym y m es c 1, spec_series ym y m es c 2]"
  by (simp add: monthlySpending_def historicalData_def categoryTotals_def Let_def
      group_by_or_0 spec_series_def conj_commute)

lemma categoryPrediction_series:
  "categoryPrediction ym y m es c =
     predict ((m + 1) mod 12) c
       [spec_series ym y m es c 0, spec_series ym y m es c 1, spec_series ym y m es c 2]"
  by (simp add: categoryPrediction_def monthlySpending_series)




lemma p_category_predict: "p_category (predict nm c ms) = c"
  by (simp add: predict_def Let_def split_def)






lemmas prediction_defs =
  categoryPrediction_def predict_def monthlySpending_def historicalData_def
  categoryTotals_def monthDate_def group_by_def accumulate_def in_month_def
  trend_of_def sum_values_def Let_def







section \<open>Properties of the budget recommendations\<close>

subsection \<open>Sorting by impact\<close>

lemma mset_insert_sorted: "mset (insert_sorted compare x xs) = add_mset x (mset xs)"
  by (induction xs) auto

lemma mset_js_sort: "mset (js_sort compare xs) = mset xs"
  by (induction xs) (auto simp: js_sort_def mset_insert_sorted)








subsection \<open>The recommendation of one prediction\<close>


lemma r_category_recommend: "r_category (recommend budget p) = p_category p"
  by (simp add: recommend_def Let_def split_def)

lemma example_recommendations:
  "budgetRecommendations example_budget example_predictions =
     [ \<lparr> r_category = ''food'', currentBudget = 0, recommendedBudget = 60, impact = High \<rparr>,
       \<lparr> r_category = ''transport'', currentBudget = 100, recommendedBudget = 44,
         impact = Medium \<rparr>,
       \<lparr> r_category = ''bills'', currentBudget = 100, recommendedBudget = 100,
         impact = Low \<rparr> ]"
  by (simp add: budgetRecommendations_def js_sort_def by_impact_def recommend_def
      budget_or_0_def example_budget_def example_predictions_def p50_def Let_def)



subsection \<open>Applying recommendations\<close>

lemma applyAll_Cons:
  "applyAllRecommendations budget (r # recs) =
     applyAllRecommendations
       (if impact r = High then AList.update (r_category r) (recommendedBudget r) budget
        else budget) recs"
  by (simp add: applyAllRecommendations_def)

lemma applyAll_unchanged:
  assumes "c \<notin> r_category ` {r \<in> set recs. impact r = High}"
  shows "map_of (applyAllRecommendations budget recs) c = map_of budget c"
  using assms
proof (induction recs arbitrary: budget)
  case Nil
  then show ?case by (simp add: applyAllRecommendations_def)
next
  case (Cons r recs)
  from Cons.prems have rest: "c \<notin> r_category ` {q \<in> set recs. impact q = High}"
    by auto
  from Cons.prems have head: "impact r = High \<longrightarrow> c \<noteq> r_category r"
    by auto
  show ?case
    unfolding applyAll_Cons Cons.IH [OF rest]
    using head by (simp add: update_conv')
qed

lemma applyAll_written:
  assumes "r \<in> set recs" "impact r = High" "distinct (map r_category recs)"
  shows "map_of (applyAllRecommendations budget recs) (r_category r)
           = Some (recommendedBudget r)"
  using assms
proof (induction recs arbitrary: budget)
  case Nil
  then show ?case by simp
next
  case (Cons q recs)
  show ?case
  proof (cases "r = q")
    case True
    from Cons.prems(3) True
    have "r_category r \<notin> r_category ` {q \<in> set recs. impact q = High}"
      by auto
    then show ?thesis
      unfolding applyAll_Cons using True Cons.prems(2)
      by (simp add: applyAll_unchanged update_conv')
  next
    case False
    with Cons.prems have "r \<in> set recs" "distinct (map r_category recs)"
      by auto
    then show ?thesis
      unfolding applyAll_Cons using Cons.prems(2) by (simp add: Cons.IH)
  qed
qed

text \<open>
  The recommendations computed from an expense list name every category at most
  once, because the categories come from a set.
\<close>

lemma distinct_uniq: "distinct (uniq xs)"
  by (simp add: uniq_def)

lemma map_p_category_predictions:
  "map p_category (predictions ym y m es) =
     filter (\<lambda>c. 0 < predictedAmount (categoryPrediction ym y m es c)) (uniq (map category es))"
  by (simp add: predictions_def filter_map comp_def categoryPrediction_series p_category_predict)

lemma distinct_budgetRecommendations:
  "distinct (map r_category (budgetRecommendations budget (predictions ym y m es)))"
proof -
  have "mset (map r_category (budgetRecommendations budget (predictions ym y m es)))
          = mset (map r_category (map (recommend budget) (predictions ym y m es)))"
    by (simp only: budgetRecommendations_def mset_map mset_js_sort)
  moreover have "map r_category (map (recommend budget) (predictions ym y m es))
                   = map p_category (predictions ym y m es)"
    by (simp add: r_category_recommend)
  moreover have "distinct (map p_category (predictions ym y m es))"
    by (simp only: map_p_category_predictions distinct_filter distinct_uniq)
  ultimately show ?thesis
    by (metis mset_eq_imp_distinct_iff)
qed

text \<open>
  C9.  Applying one recommendation stores its recommended limit under its category
  and leaves the limit of every other category as it was.  Applying all leaves
  the limit of every category that has no high-impact recommendation as it was,
  and, the categories of the recommendations being distinct, stores under the
  category of each high-impact recommendation its recommended limit; the
  recommendations computed from an expense list have distinct categories.
\<close>

theorem C9_apply_recommendation_frame:
  "map_of (applyRecommendation budget rec) (r_category rec) = Some (recommendedBudget rec)
   \<and> (\<forall>c. c \<noteq> r_category rec \<longrightarrow> map_of (applyRecommendation budget rec) c = map_of budget c)
   \<and> (\<forall>c. c \<notin> r_category ` {r \<in> set recs. impact r = High}
          \<longrightarrow> map_of (applyAllRecommendations budget recs) c = map_of budget c)
   \<and> (distinct (map r_category recs) \<longrightarrow>
        (\<forall>r \<in> set recs. impact r = High \<longrightarrow>
           map_of (applyAllRecommendations budget recs) (r_category r)
             = Some (recommendedBudget r)))
   \<and> (\<forall>r \<in> set (budgetRecommendations budget (predictions ym y m es)). impact r = High \<longrightarrow>
           map_of (applyAllRecommendations budget
                     (budgetRecommendations budget (predictions ym y m es))) (r_category r)
             = Some (recommendedBudget r))"
proof -
  have single: "map_of (applyRecommendation budget rec) (r_category rec)
                  = Some (recommendedBudget rec)"
    by (simp add: applyRecommendation_def update_conv')
  have frame1: "\<forall>c. c \<noteq> r_category rec \<longrightarrow>
                  map_of (applyRecommendation budget rec) c = map_of budget c"
    by (simp add: applyRecommendation_def update_conv')
  have frame_all: "\<forall>c. c \<notin> r_category ` {r \<in> set recs. impact r = High}
          \<longrightarrow> map_of (applyAllRecommendations budget recs) c = map_of budget c"
    by (simp add: applyAll_unchanged)
  have written: "distinct (map r_category recs) \<longrightarrow>
        (\<forall>r \<in> set recs. impact r = High \<longrightarrow>
           map_of (applyAllRecommendations budget recs) (r_category r)
             = Some (recommendedBudget r))"
    by (simp add: applyAll_written)
  have computed: "\<forall>r \<in> set (budgetRecommendations budget (predictions ym y m es)).
        impact r = High \<longrightarrow>
           map_of (applyAllRecommendations budget
                     (budgetRecommendations budget (predictions ym y m es))) (r_category r)
             = Some (recommendedBudget r)"
    by (simp add: applyAll_written distinct_budgetRecommendations)
  from single frame1 frame_all written computed show ?thesis by blast
qed

theorem C9_apply_recommendation_frame_witness:
  "map_of (applyAllRecommendations example_budget
             (budgetRecommendations example_budget example_predictions)) ''food'' = Some 60
   \<and> map_of (applyAllRecommendations example_budget
             (budgetRecommendations example_budget example_predictions)) ''bills''
       = map_of example_budget ''bills''
   \<and> map_of (applyRecommendation example_budget
                (recommend example_budget p50)) ''bills'' = map_of example_budget ''bills''
   \<and> map_of (applyAllRecommendations []
                (budgetRecommendations [] (predictions utc_calendar 2026 10 [lunch]))) ''food''
       = Some (23 / 5)"
proof -
  let ?recs = "budgetRecommendations example_budget example_predictions"
  let ?r = "\<lparr> r_category = ''food'', currentBudget = 0, recommendedBudget = 60,
              impact = High \<rparr>"
  let ?q = "\<lparr> r_category = ''food'', currentBudget = 0, recommendedBudget = 23 / 5,
              impact = High \<rparr>"
  have d: "distinct (map r_category ?recs)"
    by (simp add: example_recommendations)
  have r: "?r \<in> set ?recs" "impact ?r = High"
    by (simp_all add: example_recommendations)
  have b: "''bills'' \<notin> r_category ` {r \<in> set ?recs. impact r = High}"
    by (auto simp: example_recommendations)
  have c: "''bills'' \<noteq> r_category (recommend example_budget p50)"
    by (simp add: recommend_def Let_def p50_def)
  have p: "predictions utc_calendar 2026 10 [lunch] =
             [\<lparr> p_category = ''food'', predictedAmount = 23 / 6, confidence = 85,
                trend = Increasing \<rparr>]"
    by (simp add: predictions_def uniq_def prediction_defs calendar_defs lunch_def)
  have q: "budgetRecommendations [] (predictions utc_calendar 2026 10 [lunch]) = [?q]"
    by (simp add: p budgetRecommendations_def js_sort_def recommend_def budget_or_0_def Let_def)
  have old: "map_of (applyAllRecommendations example_budget ?recs) ''food'' = Some 60
     \<and> map_of (applyAllRecommendations example_budget ?recs) ''bills''
         = map_of example_budget ''bills''
     \<and> map_of (applyRecommendation example_budget (recommend example_budget p50)) ''bills''
         = map_of example_budget ''bills''"
    using C9_apply_recommendation_frame
            [of example_budget "recommend example_budget p50" ?recs utc_calendar 2026 10 "[]"]
      d r b c by auto
  have new: "map_of (applyAllRecommendations []
                (budgetRecommendations [] (predictions utc_calendar 2026 10 [lunch]))) ''food''
       = Some (23 / 5)"
    using C9_apply_recommendation_frame
            [of "[]" "recommend [] p50" "[]" utc_calendar 2026 10 "[lunch]"]
    by (simp add: q)
  from old new show ?thesis by simp
qed

section \<open>Properties of the gamification points\<close>

lemmas gamification_defs =
  recompute_def points_effect_def earnedPoints_def achievements_def claim_reward_def
  claim_def rewards_def initial_gamification_def in_month_def total_def sum_values_def
  uniq_def Let_def

lemma earnedPoints_sum_aux:
  "foldl (\<lambda>sum a. sum + points a) n achs = n + sum_list (map points achs)"
  by (induction achs arbitrary: n) simp_all

lemma earnedPoints_sum: "earnedPoints achs = sum_list (map points (filter unlocked achs))"
  by (simp add: earnedPoints_def earnedPoints_sum_aux)

text \<open>
  C6.  The claim: the total points are a function of the expense list and the
  budget alone.  The stored total is not: the handler of a reward subtracts the
  cost of the reward from it and records the reward as claimed.  As amended: the
  effect that follows a change of the expenses or the budget sets the total to
  the sum of the points of the achievements unlocked now, which depends on the
  expenses, the budget, the current month and the streak count only, not on the
  earlier total nor on the rewards claimed, and it leaves the list of claimed
  rewards as it is; claiming an unlocked reward not yet claimed lowers the stored
  total by its cost and appends the reward to that list.
\<close>

theorem C6_points_recomputed:
  "totalPoints (recompute ym y m es b st)
     = sum_list (map points (filter unlocked (achievements ym y m es b (streakCount st))))
   \<and> unlockedRewards (recompute ym y m es b st) = unlockedRewards st
   \<and> (streakCount st' = streakCount st \<longrightarrow>
        totalPoints (recompute ym y m es b st') = totalPoints (recompute ym y m es b st))
   \<and> (rw_unlocked r \<and> rw_id r \<notin> set (unlockedRewards st) \<longrightarrow>
        totalPoints (claim r st) = totalPoints st - cost r
        \<and> unlockedRewards (claim r st) = unlockedRewards st @ [rw_id r])"
  by (simp add: recompute_def points_effect_def earnedPoints_sum claim_def)

theorem C6_points_recomputed_witness:
  "totalPoints (recompute utc_calendar 2026 10 [] [(''food'', 100)] initial_gamification) = 500
   \<and> totalPoints (recompute utc_calendar 2026 10 [] [(''food'', 100)]
        (claim_reward ''category-unlock''
           (recompute utc_calendar 2026 10 [] [(''food'', 100)] initial_gamification))) = 500
   \<and> totalPoints (claim \<lparr> rw_id = ''category-unlock'', cost = 200, rw_unlocked = True \<rparr>
        (recompute utc_calendar 2026 10 [] [(''food'', 100)] initial_gamification)) = 300"
proof -
  let ?st = "recompute utc_calendar 2026 10 [] [(''food'', 100)] initial_gamification"
  let ?r = "\<lparr> rw_id = ''category-unlock'', cost = 200, rw_unlocked = True \<rparr>"
  have a: "totalPoints ?st = 500"
    by (simp add: gamification_defs)
  have s: "streakCount (claim_reward ''category-unlock'' ?st) = streakCount initial_gamification"
    by (simp add: gamification_defs)
  have u: "rw_unlocked ?r \<and> rw_id ?r \<notin> set (unlockedRewards ?st)"
    by (simp add: gamification_defs)
  have first: "totalPoints (recompute utc_calendar 2026 10 [] [(''food'', 100)]
        (claim_reward ''category-unlock'' ?st)) = 500"
    using C6_points_recomputed
            [of utc_calendar 2026 10 "[]" "[(''food'', 100)]" initial_gamification
                "claim_reward ''category-unlock'' ?st"] a s
    by simp
  have second: "totalPoints (claim ?r ?st) = 300"
    using C6_points_recomputed
            [of utc_calendar 2026 10 "[]" "[(''food'', 100)]" ?st ?st ?r] a u
    by simp
  from a first second show ?thesis by simp
qed

text \<open>
  Against C6 as stated: with no expense and a budget of 100 the effect gives 500
  points (budget master and savings champion); after the reward of cost 200 is
  claimed, the expenses and the budget being the same, the total is 300.
\<close>

theorem C6_counterexample:
  "totalPoints (recompute utc_calendar 2026 10 [] [(''food'', 100)] initial_gamification) = 500
   \<and> totalPoints (claim_reward ''category-unlock''
        (recompute utc_calendar 2026 10 [] [(''food'', 100)] initial_gamification)) = 300"
  by (simp add: gamification_defs)

section \<open>Properties of the expense form\<close>




lemma unsigned_decimal_nonneg:
  assumes "unsigned_decimal u = Some v"
  shows "0 \<le> v"
  using assms
  by (auto simp: unsigned_decimal_def Let_def split: if_splits option.splits)

text \<open>A text that reads as a number and does not start with a minus sign is not negative.\<close>

lemma Number_nonneg:
  assumes "\<not> isNaN (Number s)" "CHR ''-'' \<notin> set (take 1 (trim s))"
  shows "js_ge (Number s) (Num 0)"
proof (cases "trim s")
  case Nil
  then show ?thesis by (simp add: Number_def)
next
  case (Cons c cs)
  with assms(2) have c: "c \<noteq> CHR ''-''" by simp
  from Cons c assms(1) show ?thesis
    by (auto simp: Number_def Let_def unsigned_decimal_nonneg split: option.splits if_splits)
qed











section \<open>Properties of the dashboard and of the export\<close>

lemma total_sum_list_aux: "foldl (\<lambda>sum e. sum + amount e) a es = a + sum_list (map amount es)"
  by (induction es arbitrary: a) (simp_all add: add.assoc)

lemma total_sum_list: "total es = sum_list (map amount es)"
  by (simp add: total_def total_sum_list_aux)

lemmas clock_defs =
  currentMonth_def lastMonth_def isoMonth_def setMonth_def daysInMonth_def leapYear_def
  digit_char_def Let_def

text \<open>
  Given the two month keys, the change is as the specification words it: the
  total of a key is the sum of the amounts of the expenses whose date text
  starts with it, and the change in percent is the difference of the two totals
  over the total of the last key, times 100, when that total is positive, and 0
  when it is 0.
\<close>

lemma spendingChange_formula:
  "monthTotal month es
     = sum_list (map amount (filter (\<lambda>e. take (length month) (date e) = month) es))
   \<and> (0 < monthTotal (lastMonth now) es \<longrightarrow>
        spendingChange now es =
          (monthTotal (currentMonth now) es - monthTotal (lastMonth now) es)
            / monthTotal (lastMonth now) es * 100)
   \<and> (monthTotal (lastMonth now) es = 0 \<longrightarrow> spendingChange now es = 0)"
  by (simp add: spendingChange_def Let_def monthTotal_def total_sum_list startsWith_def)

text \<open>
  The last key is the key of the previous calendar month when the previous month
  has the day of the month of today, and the key of the current month otherwise.
\<close>

lemma lastMonth_key:
  "lastMonth (y, m, d) =
     (if d \<le> daysInMonth (y + (m - 1) div 12) ((m - 1) mod 12)
      then isoMonth (y + (m - 1) div 12, (m - 1) mod 12, d)
      else isoMonth (y + (m - 1) div 12 + ((m - 1) mod 12 + 1) div 12,
                     ((m - 1) mod 12 + 1) mod 12,
                     d - daysInMonth (y + (m - 1) div 12) ((m - 1) mod 12)))"
  by (simp add: lastMonth_def setMonth_def Let_def)

text \<open>
  C8.  The claim: the change is computed from the total of the previous calendar
  month.  On 31 March 2026 \<open>setMonth\<close> turns the date into 31 February, which is
  3 March, so the last key is the key of March again.  With 100 spent in February
  and 150 in March the code compares March with itself and shows 0, where the
  totals of the two calendar months give (150 - 100) / 100 * 100 = 50.
\<close>

theorem C8_last_month_is_current_month:
  "currentMonth (2026, 2, 31) = ''2026-03''
   \<and> lastMonth (2026, 2, 31) = ''2026-03''
   \<and> monthTotal ''2026-03'' [march_books, february_rent] = 150
   \<and> monthTotal ''2026-02'' [march_books, february_rent] = 100
   \<and> spendingChange (2026, 2, 31) [march_books, february_rent] = 0
   \<and> spendingChange (2026, 2, 28) [march_books, february_rent] = 50"
  by (simp add: spendingChange_def clock_defs monthTotal_def total_def startsWith_def
      march_books_def february_rent_def)

lemma join_Cons: "join sep (x # xs) = x @ concat (map (\<lambda>y. sep @ y) xs)"
  by (induction xs arbitrary: x) simp_all

lemma header_line: "join '','' headers = ''Date,Description,Category,Amount''"
  by (simp add: headers_def)

lemma csvRow_text:
  "csvRow fmt e = date e @ '','' @ [CHR 0x22] @ description e @ [CHR 0x22] @ '','' @ category e
                  @ '','' @ fmt (amount e)"
  by (simp add: csvRow_def)

text \<open>
  C10.  The exported text is the header line \<open>Date,Description,Category,Amount\<close>
  followed, for each selected expense in order, by a line feed and the date, the
  description between double quotes, the category and the formatted amount,
  joined by commas.  When the selection is empty the text is the header line
  alone.
\<close>

theorem C10_csv_export:
  "exportAsCSV fmt time startDate dateRange es =
     ''Date,Description,Category,Amount''
     @ concat (map (\<lambda>e. [CHR 0x0A] @ date e @ '','' @ [CHR 0x22] @ description e @ [CHR 0x22]
                         @ '','' @ category e @ '','' @ fmt (amount e))
                   (getFilteredExpenses time startDate dateRange es))
   \<and> (getFilteredExpenses time startDate dateRange es = [] \<longrightarrow>
        exportAsCSV fmt time startDate dateRange es = ''Date,Description,Category,Amount'')"
  by (simp add: exportAsCSV_def csvContent_def join_Cons header_line csvRow_text comp_def)

theorem C10_csv_export_witness:
  "getFilteredExpenses (\<lambda>d. Some 0) (\<lambda>r. 1) RangeMonth [lunch] = []
   \<and> exportAsCSV toFixed2_small (\<lambda>d. Some 0) (\<lambda>r. 1) RangeMonth [lunch]
       = ''Date,Description,Category,Amount''
   \<and> exportAsCSV toFixed2_small (\<lambda>d. Some 0) (\<lambda>r. 1) RangeAll [lunch]
       = ''Date,Description,Category,Amount'' @ [CHR 0x0A]
         @ ''2026-11-02,'' @ [CHR 0x22] @ ''lunch'' @ [CHR 0x22] @ '',food,10.00''"
proof -
  have e: "getFilteredExpenses (\<lambda>d. Some 0) (\<lambda>r. 1) RangeMonth [lunch] = []"
    by (simp add: getFilteredExpenses_def)
  have a: "getFilteredExpenses (\<lambda>d. Some 0) (\<lambda>r. 1) RangeAll [lunch] = [lunch]"
    by (simp add: getFilteredExpenses_def)
  have f: "toFixed2_small (amount lunch) = ''10.00''"
    by (simp add: lunch_def toFixed2_small_def show_nat.simps [of 10]
        show_nat.simps [of "Suc 0"] digit_char_def)
  show ?thesis
    using C10_csv_export [of toFixed2_small "\<lambda>d. Some 0" "\<lambda>r. 1" RangeMonth "[lunch]"]
      C10_csv_export [of toFixed2_small "\<lambda>d. Some 0" "\<lambda>r. 1" RangeAll "[lunch]"] e a f
    by (simp add: lunch_def)
qed

end
